theory Spec2Isabelle
  imports Complex_Main "HOL-Library.Monad_Syntax"
begin

section \<open>Python values used by the bot\<close>

text \<open>
  Text is a list of characters, one \<^typ>\<open>char\<close> per code point. A \<^typ>\<open>char\<close> has
  eight bits, so the model covers text whose code points are below 256. In that range the
  decimal digits are \<open>0\<close> to \<open>9\<close>, and the line boundaries and the white space are the
  characters listed below.
\<close>

datatype pyerror =
    AssertionError | IndexError | KeyError | AttributeError | ValueError | TypeError
  | FileNotFoundError

definition LF :: char where
  "LF = CHR 0x0A"

definition CR :: char where
  "CR = CHR 0x0D"

definition is_linebreak :: "char \<Rightarrow> bool" where
  \<comment> \<open>the boundaries of \<open>str.splitlines\<close>\<close>
  "is_linebreak c =
     (c \<in> set [CHR 0x0A, CHR 0x0B, CHR 0x0C, CHR 0x0D, CHR 0x1C, CHR 0x1D, CHR 0x1E, CHR 0x85])"

definition is_space :: "char \<Rightarrow> bool" where
  \<comment> \<open>the characters \<open>str.strip\<close> removes\<close>
  "is_space c =
     (c \<in> set [CHR 0x09, CHR 0x0A, CHR 0x0B, CHR 0x0C, CHR 0x0D, CHR 0x1C, CHR 0x1D, CHR 0x1E,
                CHR 0x1F, CHR 0x20, CHR 0x85, CHR 0xA0])"

definition is_digit :: "char \<Rightarrow> bool" where
  \<comment> \<open>the class \<open>\d\<close>\<close>
  "is_digit c = (c \<in> set ''0123456789'')"

fun splitlines_from :: "string \<Rightarrow> string \<Rightarrow> string list" where
  "splitlines_from cur [] = (if cur = [] then [] else [cur])"
| "splitlines_from cur [c] = (if is_linebreak c then [cur] else [cur @ [c]])"
| "splitlines_from cur (c # d # cs) =
     (if c = CR \<and> d = LF then cur # splitlines_from [] cs
      else if is_linebreak c then cur # splitlines_from [] (d # cs)
      else splitlines_from (cur @ [c]) (d # cs))"

definition splitlines :: "string \<Rightarrow> string list" where
  \<comment> \<open>\<open>s.splitlines()\<close>: the lines without their boundaries; \<open>\r\n\<close> is one boundary, and a
      boundary at the very end opens no further line\<close>
  "splitlines s = splitlines_from [] s"

definition startswith :: "string \<Rightarrow> string \<Rightarrow> bool" where
  "startswith s p = (take (length p) s = p)"

definition strip :: "string \<Rightarrow> string" where
  "strip s = rev (dropWhile is_space (rev (dropWhile is_space s)))"

function split_from :: "string \<Rightarrow> string \<Rightarrow> string \<Rightarrow> string list" where
  "split_from sep cur [] = [cur]"
| "split_from sep cur (c # cs) =
     (if sep \<noteq> [] \<and> startswith (c # cs) sep
      then cur # split_from sep [] (drop (length sep) (c # cs))
      else split_from sep (cur @ [c]) cs)"
  by pat_completeness auto
termination
  by (relation "measure (\<lambda>(sep, cur, s). length s)") auto

definition split :: "string \<Rightarrow> string \<Rightarrow> string list" where
  \<comment> \<open>\<open>s.split(sep)\<close> for a non-empty separator: the pieces between the occurrences of
      \<open>sep\<close>, found from the left without overlap\<close>
  "split s sep = split_from sep [] s"

definition digit_value :: "char \<Rightarrow> int" where
  "digit_value c = int (of_char c) - 48"

definition decimal_value :: "string \<Rightarrow> int" where
  \<comment> \<open>the number a string of decimal digits stands for\<close>
  "decimal_value s = foldl (\<lambda>n c. 10 * n + digit_value c) 0 s"

definition int_max_str_digits :: nat where
  \<comment> \<open>\<open>sys.int_info.default_max_str_digits\<close>\<close>
  "int_max_str_digits = 4300"

definition int_of_str :: "string \<Rightarrow> pyerror + int" where
  \<comment> \<open>\<open>int(s)\<close> for a string of decimal digits: CPython raises \<open>ValueError\<close> when the
      string has more digits than the limit, leading zeros included\<close>
  "int_of_str s =
     (if length s > int_max_str_digits then Inl ValueError else Inr (decimal_value s))"

section \<open>The index loader, \<open>loader.py\<close>\<close>

subsection \<open>Options\<close>

datatype FilterType = EXCLUDE | INCLUDE

record RepoOptions =
  owner :: string
  repo :: string
  branch :: string
  commit_sha :: "string option"
  filter_directories :: "(string list \<times> FilterType) option"
  filter_file_extensions :: "(string list \<times> FilterType) option"
  verbose :: bool
  concurrent_requests :: int

definition RepoOptions_new :: "string \<Rightarrow> string \<Rightarrow> RepoOptions" where
  \<comment> \<open>\<open>RepoOptions(owner=..., repo=...)\<close>: the other fields take their defaults\<close>
  "RepoOptions_new own rep =
     \<lparr>owner = own, repo = rep, branch = ''main'', commit_sha = None,
      filter_directories = Some ([''.git'', ''.yarn'', ''node_modules''], EXCLUDE),
      filter_file_extensions = Some ([''.zip''], EXCLUDE),
      verbose = True, concurrent_requests = 10\<rparr>"

record CacheOptions =
  path :: string
  force_update :: bool
  max_age :: int

definition CacheOptions_new :: CacheOptions where
  \<comment> \<open>\<open>CacheOptions()\<close>\<close>
  "CacheOptions_new = \<lparr>path = ''~/.alchemy'', force_update = False, max_age = 60\<rparr>"

text \<open>
  \<open>ModelOptions\<close> as in the source; its fields \<open>cache\<close>, \<open>verbose\<close> and \<open>n\<close> carry the
  prefix \<open>mo_\<close>.
\<close>

record ModelOptions =
  mo_cache :: "bool option"
  mo_verbose :: bool
  model_name :: "string option"
  temperature :: "real option"
  max_tokens :: "int option"
  top_p :: "real option"
  frequency_penalty :: "real option"
  presence_penalty :: "real option"
  mo_n :: "int option"
  best_of :: "int option"
  model_kwargs :: "(string \<times> string) list option"
  openai_api_key :: "string option"
  batch_size :: "int option"
  request_timeout :: "real option"
  logit_bias :: "(string \<times> real) list option"
  max_retries :: "int option"
  streaming :: bool

definition ModelOptions_new :: ModelOptions where
  \<comment> \<open>\<open>ModelOptions()\<close>\<close>
  "ModelOptions_new =
     \<lparr>mo_cache = None, mo_verbose = False, model_name = None, temperature = None,
      max_tokens = None, top_p = None, frequency_penalty = None, presence_penalty = None,
      mo_n = None, best_of = None, model_kwargs = None, openai_api_key = None,
      batch_size = None, request_timeout = None, logit_bias = None, max_retries = None,
      streaming = False\<rparr>"

subsection \<open>The world outside the program\<close>

text \<open>
  The cache directory is a map from path names to files; a file has its modification time
  and its content. Times are real numbers of seconds, and \<open>clock\<close> is what \<open>time.time()\<close>
  returns. \<open>calls\<close> lists the writing requests sent to GitHub so far, oldest first:
  \<open>create_git_tree\<close> (path, content, base tree), \<open>create_git_commit\<close> (message, tree,
  the parents' SHAs), \<open>ref.edit\<close> (ref, SHA), \<open>create_git_ref\<close> (ref, SHA),
  \<open>create_pull\<close> (title, body, base, head) and \<open>create_review_comment_reply\<close>
  (comment, body).
\<close>

record cache_file =
  mtime :: real
  content :: string

datatype git_call =
    CreateGitTree string string string
  | CreateGitCommit string string "string list"
  | EditRef string string
  | CreateGitRef string string
  | CreatePull string string string string
  | CreateReviewCommentReply string string

record world =
  files :: "string \<rightharpoonup> cache_file"
  clock :: real
  calls :: "git_call list"

text \<open>
  The libraries the program delegates to are parameters: a document set \<open>'d\<close> and an
  index \<open>'i\<close> are whatever the indexing library makes of them, and each library function
  is a function of what the program passes to it. The program handles none of their
  exceptions; the model follows the calls that return.
  \<^item> \<open>expanduser\<close> is \<open>Path.expanduser\<close> on the text of a path.
  \<^item> \<open>load_data\<close> is what \<open>GithubRepositoryReader(...).load_data\<close> returns for the options;
    \<open>pickle_dumps\<close> and \<open>pickle_loads\<close> are those of \<open>pickle\<close>.
  \<^item> \<open>from_documents\<close> builds the index with the service context of the model options,
    \<open>load_from_string\<close> reads one from the content of a cache file, and \<open>save_to_json\<close> is
    \<open>json.dumps(index.save_to_dict())\<close>.
  \<^item> \<open>query\<close> is the text \<open>index.query(q).response\<close>.
  \<^item> \<open>get_branch\<close> is \<open>repo.get_branch(name)\<close>, with \<open>None\<close> for a result that is false;
    \<open>str_of_branch\<close> is the text an f-string gives for a branch object; \<open>get_git_ref\<close>
    is the truth value of \<open>repo.get_git_ref(ref)\<close>.
  \<^item> \<open>new_tree\<close> and \<open>new_commit\<close> give the objects GitHub answers a creating request
    with. A \<open>Branch\<close> carries the Git commit at its head, \<open>branch.commit.commit\<close>.
\<close>

record Repository =
  full_name :: string
  default_branch :: string

record GitCommit =
  sha :: string
  tree :: string

record Branch =
  name :: string
  head :: GitCommit

record ('d, 'i) library =
  expanduser :: "string \<Rightarrow> string"
  load_data :: "RepoOptions \<Rightarrow> 'd"
  pickle_dumps :: "'d \<Rightarrow> string"
  pickle_loads :: "string \<Rightarrow> 'd"
  from_documents :: "ModelOptions \<Rightarrow> 'd \<Rightarrow> 'i"
  load_from_string :: "string \<Rightarrow> 'i"
  save_to_json :: "'i \<Rightarrow> string"
  query :: "'i \<Rightarrow> string \<Rightarrow> string"
  get_branch :: "Repository \<Rightarrow> string \<Rightarrow> Branch option"
  str_of_branch :: "Branch \<Rightarrow> string"
  get_git_ref :: "Repository \<Rightarrow> string \<Rightarrow> bool"
  new_tree :: "string \<Rightarrow> string \<Rightarrow> string \<Rightarrow> string"
  new_commit :: "string \<Rightarrow> string \<Rightarrow> GitCommit list \<Rightarrow> GitCommit"

subsection \<open>The cache\<close>

definition get_cache_name :: "RepoOptions \<Rightarrow> string" where
  "get_cache_name repo_opts =
     (let name = owner repo_opts @ ''-'' @ repo repo_opts
      in name @ ''-'' @
           (case commit_sha repo_opts of
              None \<Rightarrow> branch repo_opts
            | Some s \<Rightarrow> if s \<noteq> [] then s else branch repo_opts))"

definition path_join :: "string \<Rightarrow> string \<Rightarrow> string" where
  \<comment> \<open>\<open>Path(p) / n\<close>: an absolute \<open>n\<close> replaces \<open>p\<close>\<close>
  "path_join p n = (if startswith n ''/'' then n else p @ ''/'' @ n)"

definition get_cache_path ::
  "('d, 'i) library \<Rightarrow> RepoOptions \<Rightarrow> CacheOptions \<Rightarrow> string option \<Rightarrow> string" where
  "get_cache_path L repo_opts cache_opts ext =
     (let cache_path = expanduser L (path cache_opts);
          name = get_cache_name repo_opts;
          name = name @ (case ext of
                           None \<Rightarrow> []
                         | Some e \<Rightarrow> if e \<noteq> [] then ''.'' @ e else [])
      in path_join cache_path name)"

definition cache_is_usable :: "world \<Rightarrow> string \<Rightarrow> CacheOptions \<Rightarrow> pyerror + bool" where
  \<comment> \<open>\<open>path.stat()\<close> raises when there is no such file\<close>
  "cache_is_usable w p cache_opts =
     (case files w p of
        None \<Rightarrow> Inl FileNotFoundError
      | Some f \<Rightarrow>
          Inr (clock w - mtime f < real_of_int (max_age cache_opts)
               \<or> \<not> force_update cache_opts))"

definition get_cache ::
  "('d, 'i) library \<Rightarrow> string \<Rightarrow> RepoOptions \<Rightarrow> CacheOptions \<Rightarrow> world \<Rightarrow> string option" where
  \<comment> \<open>the content of the cache file, or \<open>None\<close>\<close>
  "get_cache L ext repo_opts cache_opts w =
     (let cache_path = get_cache_path L repo_opts cache_opts (Some ext)
      in if files w cache_path \<noteq> None \<and> cache_is_usable w cache_path cache_opts = Inr True
         then map_option content (files w cache_path)
         else None)"

definition put_cache ::
  "('d, 'i) library \<Rightarrow> string \<Rightarrow> string \<Rightarrow> RepoOptions \<Rightarrow> CacheOptions \<Rightarrow> world \<Rightarrow> world" where
  "put_cache L data ext repo_opts cache_opts w =
     (let cache_path = get_cache_path L repo_opts cache_opts (Some ext)
      in w\<lparr>files := (files w)(cache_path \<mapsto> \<lparr>mtime = clock w, content = data\<rparr>)\<rparr>)"

definition truthy :: "string option \<Rightarrow> bool" where
  \<comment> \<open>the truth value of an optional string: \<open>None\<close> and the empty string are false\<close>
  "truthy v = (case v of None \<Rightarrow> False | Some s \<Rightarrow> s \<noteq> [])"

definition load_documents ::
  "('d, 'i) library \<Rightarrow> RepoOptions \<Rightarrow> CacheOptions \<Rightarrow> world \<Rightarrow> 'd \<times> world" where
  "load_documents L repo_opts cache_opts w =
     (let cache = get_cache L ''docs.pkl'' repo_opts cache_opts w
      in if truthy cache then (pickle_loads L (the cache), w)
         else (let docs = load_data L repo_opts
               in (docs, put_cache L (pickle_dumps L docs) ''docs.pkl'' repo_opts cache_opts w)))"

definition create_simple_vector_index ::
  "('d, 'i) library \<Rightarrow> RepoOptions \<Rightarrow> CacheOptions \<Rightarrow> ModelOptions \<Rightarrow> world \<Rightarrow> 'i \<times> world" where
  "create_simple_vector_index L repo_opts cache_opts model_opts w =
     (let cache = get_cache L ''sv.idx.json'' repo_opts cache_opts w
      in if truthy cache then (load_from_string L (the cache), w)
         else (let (docs, w1) = load_documents L repo_opts cache_opts w;
                   index = from_documents L model_opts docs
               in (index, put_cache L (save_to_json L index) ''sv.idx.json'' repo_opts cache_opts w1)))"

section \<open>The target extractor of \<open>github.py\<close>\<close>

text \<open>
  The dataclass \<open>EditTarget\<close>. Its field \<open>path\<close> is called \<open>target_path\<close> here,
  since \<open>CacheOptions\<close> has a field \<open>path\<close> already. A \<open>Path\<close> is kept as the string
  it was built from.
\<close>

datatype Path = Path string

record EditTarget =
  target_path :: Path
  commit :: string
  block :: "int \<times> int"

subsection \<open>The pattern \<open>_target_regex\<close>\<close>

text \<open>
  The pattern is
  \<^verbatim>\<open>https://github.com/[^/]+/[^/]+/blob/(?P<commit>[^/]+)/(?P<path_str>[^#]+)#L(?P<start>\d+)(?:-L(?P<end>\d+))?\<close>.
  Each piece of it is one step of the matcher below, in the order of the pattern. A
  repetition takes the longest run of its class. Every class of the pattern excludes the
  character that must follow it (\<open>/\<close> after \<open>[^/]+\<close>, \<open>#\<close> after \<open>[^#]+\<close>), and what
  follows a \<open>\d+\<close> is optional or the end of the pattern, so giving back characters of
  a run never turns a failure into a match: the longest run is the only candidate. The unescaped dot of
  \<open>github.com\<close> stands for any character but a line feed.
\<close>

definition lit :: "string \<Rightarrow> string \<Rightarrow> string option" where
  \<comment> \<open>literal text: the rest of the input after it\<close>
  "lit p s = (if startswith s p then Some (drop (length p) s) else None)"

definition any_char :: "string \<Rightarrow> string option" where
  \<comment> \<open>the dot\<close>
  "any_char s = (case s of [] \<Rightarrow> None | c # r \<Rightarrow> if c = LF then None else Some r)"

definition many1 :: "(char \<Rightarrow> bool) \<Rightarrow> string \<Rightarrow> (string \<times> string) option" where
  \<comment> \<open>\<open>[class]+\<close>: the longest non-empty run of the class, and the rest\<close>
  "many1 P s = (if takeWhile P s = [] then None else Some (takeWhile P s, dropWhile P s))"

definition opt_end :: "string \<Rightarrow> string option" where
  \<comment> \<open>\<open>(?:-L(?P<end>\d+))?\<close>: the group \<open>end\<close> when the optional part matches\<close>
  "opt_end s = do { r \<leftarrow> lit ''-L'' s; (e, _) \<leftarrow> many1 is_digit r; Some e }"

definition target_regex_match :: "string \<Rightarrow> (string \<times> string \<times> string \<times> string option) option" where
  \<comment> \<open>\<open>_target_regex.match(line).groups()\<close>: the groups \<open>commit\<close>, \<open>path_str\<close>,
      \<open>start\<close>, \<open>end\<close> of a match that begins at the first character of the line\<close>
  "target_regex_match line = do {
     s \<leftarrow> lit ''https://github'' line;
     s \<leftarrow> any_char s;
     s \<leftarrow> lit ''com/'' s;
     (_, s) \<leftarrow> many1 (\<lambda>c. c \<noteq> CHR ''/'') s;
     s \<leftarrow> lit ''/'' s;
     (_, s) \<leftarrow> many1 (\<lambda>c. c \<noteq> CHR ''/'') s;
     s \<leftarrow> lit ''/blob/'' s;
     (commit_g, s) \<leftarrow> many1 (\<lambda>c. c \<noteq> CHR ''/'') s;
     s \<leftarrow> lit ''/'' s;
     (path_str, s) \<leftarrow> many1 (\<lambda>c. c \<noteq> CHR ''#'') s;
     s \<leftarrow> lit ''#L'' s;
     (start_g, s) \<leftarrow> many1 is_digit s;
     Some (commit_g, path_str, start_g, opt_end s)
   }"

subsection \<open>\<open>_get_targets_from_body\<close>\<close>

definition target_of_line :: "string \<Rightarrow> pyerror + EditTarget option" where
  \<comment> \<open>the body of the loop: a target when the pattern matches the line, and the
      exception of \<open>int\<close> when a line number is too long\<close>
  "target_of_line line =
     (case target_regex_match line of
        None \<Rightarrow> Inr None
      | Some (commit_g, path_str, start_g, end_g) \<Rightarrow>
          (case int_of_str start_g of
             Inl err \<Rightarrow> Inl err
           | Inr start \<Rightarrow>
               (case (case end_g of
                        None \<Rightarrow> Inr (start + 1)
                      | Some e \<Rightarrow> if e \<noteq> [] then int_of_str e else Inr (start + 1)) of
                  Inl err \<Rightarrow> Inl err
                | Inr stop \<Rightarrow>
                    Inr (Some \<lparr>target_path = Path path_str, commit = commit_g,
                               block = (start, stop)\<rparr>))))"

fun targets_of_lines :: "string list \<Rightarrow> EditTarget list \<times> pyerror option" where
  "targets_of_lines [] = ([], None)"
| "targets_of_lines (l # ls) =
     (case target_of_line l of
        Inl err \<Rightarrow> ([], Some err)
      | Inr None \<Rightarrow> targets_of_lines ls
      | Inr (Some t) \<Rightarrow> (let (ts, err) = targets_of_lines ls in (t # ts, err)))"

definition get_targets_from_body :: "string \<Rightarrow> EditTarget list \<times> pyerror option" where
  \<comment> \<open>the generator: the targets it yields, in order, and the exception that ends it when
      one does\<close>
  "get_targets_from_body haystack = targets_of_lines (splitlines haystack)"

section \<open>The edit pipeline of \<open>github.py\<close>\<close>

subsection \<open>Actions: a result or an exception, and the world after\<close>

type_synonym 'a action = "world \<Rightarrow> (pyerror + 'a) \<times> world"

definition ret :: "'a \<Rightarrow> 'a action" where
  "ret x w = (Inr x, w)"

definition raise :: "pyerror \<Rightarrow> 'a action" where
  "raise e w = (Inl e, w)"

definition and_then :: "'a action \<Rightarrow> ('a \<Rightarrow> 'b action) \<Rightarrow> 'b action" where
  \<comment> \<open>one statement after another: an exception ends the sequence\<close>
  "and_then m f w = (case m w of (Inl e, w') \<Rightarrow> (Inl e, w') | (Inr x, w') \<Rightarrow> f x w')"

definition of_result :: "pyerror + 'a \<Rightarrow> 'a action" where
  "of_result v w = (v, w)"

definition send :: "git_call \<Rightarrow> unit action" where
  \<comment> \<open>a writing request to GitHub\<close>
  "send c w = (Inr (), w\<lparr>calls := calls w @ [c]\<rparr>)"

definition arity :: "nat \<Rightarrow> nat \<Rightarrow> unit action" where
  \<comment> \<open>a call that passes \<open>given\<close> positional arguments to a function of \<open>params\<close>
      parameters, none with a default: Python raises \<open>TypeError\<close> before the body runs
      unless the numbers agree\<close>
  "arity params given = (if given = params then ret () else raise TypeError)"

subsection \<open>Commands\<close>

text \<open>
  The dataclass \<open>EditCommand\<close>. Its fields \<open>repo\<close> and \<open>branch\<close> carry the prefix
  \<open>cmd_\<close>, since \<open>RepoOptions\<close> has fields of these names.
\<close>

record EditCommand =
  cmd_repo :: Repository
  command :: string
  cmd_branch :: string
  targets :: "EditTarget list option"
  pr :: "string option"

definition EditCommand_fields :: "string list" where
  "EditCommand_fields = [''repo'', ''command'', ''branch'', ''targets'', ''pr'']"

definition EditCommand_new :: "string list \<Rightarrow> EditCommand \<Rightarrow> EditCommand action" where
  \<comment> \<open>the constructor called with the keyword arguments \<open>kws\<close>: a keyword that is no
      field is a \<open>TypeError\<close>\<close>
  "EditCommand_new kws c =
     (if list_all (\<lambda>k. k \<in> set EditCommand_fields) kws then ret c else raise TypeError)"

definition RESP_PATH_PREFIX :: string where
  "RESP_PATH_PREFIX = ''%%%''"

definition PROMPT_HELPER :: string where
  "PROMPT_HELPER =
     [LF] @ ''You are a software developer helping to refactor, improve, and maintain a codebase. When prompted to ''
     @ [LF] @ ''perform an update, you must return the entire updated files. Format your responses as plaintext without ''
     @ [LF] @ ''markdown, as if you were editing the file directly, and prefix each file with ''
     @ [CHR 0x27] @ RESP_PATH_PREFIX @ [CHR 0x27] @ '' followed''
     @ [LF] @ ''by a space and the filename. eg: '' @ [CHR 0x27] @ RESP_PATH_PREFIX
     @ '' relative/path/to/file.py'' @ [CHR 0x27] @ [LF]"

subsection \<open>Writing to GitHub\<close>

definition create_or_update_branch ::
  "('d, 'i) library \<Rightarrow> EditCommand \<Rightarrow> string \<Rightarrow> unit action" where
  "create_or_update_branch L cmd commit_id =
     and_then
       (if get_git_ref L (cmd_repo cmd) (''heads/'' @ cmd_branch cmd)
        then send (EditRef (''heads/'' @ cmd_branch cmd) commit_id)
        else ret ())
       (\<lambda>_. send (CreateGitRef (''refs/heads/'' @ cmd_branch cmd) commit_id))"

definition update_file_content ::
  "('d, 'i) library \<Rightarrow> Repository \<Rightarrow> EditCommand \<Rightarrow> string \<Rightarrow> string \<Rightarrow> GitCommit option
     \<Rightarrow> GitCommit action" where
  \<comment> \<open>without a parent, the head of the command's branch or else of the default branch is
      the parent; \<open>None.commit\<close> is an \<open>AttributeError\<close>\<close>
  "update_file_content L r cmd p text parent =
     and_then
       (case parent of
          Some c \<Rightarrow> ret c
        | None \<Rightarrow>
            (case (case get_branch L r (cmd_branch cmd) of
                     Some b \<Rightarrow> Some b
                   | None \<Rightarrow> get_branch L r (default_branch r)) of
               None \<Rightarrow> raise AttributeError
             | Some b \<Rightarrow> ret (head b)))
       (\<lambda>par.
          let t = new_tree L p text (tree par)
          in and_then (send (CreateGitTree p text (tree par)))
               (\<lambda>_. and_then (send (CreateGitCommit (''Update '' @ p) t [sha par]))
                       (\<lambda>_. ret (new_commit L (''Update '' @ p) t [par]))))"

subsection \<open>\<open>_make_targeted_changes\<close> and \<open>_make_freeform_changes\<close>\<close>

definition make_targeted_changes :: "unit action" where
  \<comment> \<open>the body is \<open>pass\<close>\<close>
  "make_targeted_changes = ret ()"

text \<open>
  The loop that reads the response into \<open>output_files\<close>, a list of \<open>OutputFile\<close> named
  tuples, kept here as pairs of a path and a content. In the \<open>else\<close> branch Python first
  evaluates \<open>output_files[-1]\<close>, an \<open>IndexError\<close> on the empty list, and then assigns to
  the field \<open>content\<close> of the named tuple; a named tuple is immutable, and the assignment
  raises \<open>AttributeError\<close>. The unpacking \<open>_, key = line.split(...)\<close> is a \<open>ValueError\<close>
  unless the split has two pieces.
\<close>

fun split_loop :: "(string \<times> string) list \<Rightarrow> string list \<Rightarrow> pyerror + (string \<times> string) list" where
  "split_loop output_files [] = Inr output_files"
| "split_loop output_files (l # ls) =
     (if startswith l RESP_PATH_PREFIX
      then (case split l RESP_PATH_PREFIX of
              [_, key] \<Rightarrow> split_loop (output_files @ [(strip key, [])]) ls
            | _ \<Rightarrow> Inl ValueError)
      else if output_files = [] then Inl IndexError
      else Inl AttributeError)"

definition split_response :: "string \<Rightarrow> pyerror + (string \<times> string) list" where
  "split_response resp = split_loop [] (splitlines resp)"

text \<open>
  The loop that commits the files. Its second statement calls
  \<open>_create_or_update_branch\<close>, a function of two parameters, with three arguments.
\<close>

primrec commit_files ::
  "('d, 'i) library \<Rightarrow> Repository \<Rightarrow> EditCommand \<Rightarrow> (string \<times> string) list
     \<Rightarrow> GitCommit option \<Rightarrow> unit action" where
  "commit_files L r cmd [] = (\<lambda>prev_commit. ret ())"
| "commit_files L r cmd (f # fs) = (\<lambda>prev_commit.
     and_then (update_file_content L r cmd (fst f) (snd f) prev_commit)
       (\<lambda>c. and_then (arity 2 3)
          (\<lambda>_. and_then (create_or_update_branch L cmd (sha c))
             (\<lambda>_. commit_files L r cmd fs (Some c)))))"

text \<open>
  \<open>_make_freeform_changes\<close> in two parts: \<open>freeform_response\<close> is the function up to the
  query that returns the response, \<open>make_freeform_changes\<close> the whole of it.
\<close>

definition freeform_response ::
  "('d, 'i) library \<Rightarrow> Repository \<Rightarrow> EditCommand \<Rightarrow> string action" where
  "freeform_response L r cmd =
     (case split (full_name r) ''/'' of
        [repo_owner, repo_name] \<Rightarrow>
          (let repo_opts = RepoOptions_new repo_owner repo_name;
               repo_opts = (case get_branch L r (cmd_branch cmd) of
                              Some b \<Rightarrow> repo_opts\<lparr>branch := str_of_branch L b\<rparr>
                            | None \<Rightarrow> repo_opts);
               model_opts = ModelOptions_new\<lparr>model_name := Some ''gpt-4'',
                              temperature := Some (2 / 10), request_timeout := Some 600\<rparr>;
               cache_opts = CacheOptions_new
           in (\<lambda>w. let (index, w1) = create_simple_vector_index L repo_opts cache_opts model_opts w
                   in (Inr (query L index (PROMPT_HELPER @ command cmd)), w1)))
      | _ \<Rightarrow> raise ValueError)"

definition make_freeform_changes ::
  "('d, 'i) library \<Rightarrow> Repository \<Rightarrow> EditCommand \<Rightarrow> unit action" where
  "make_freeform_changes L r cmd =
     and_then (freeform_response L r cmd)
       (\<lambda>resp. and_then (of_result (split_response resp))
          (\<lambda>output_files. commit_files L r cmd output_files None))"

subsection \<open>\<open>_make_changes\<close>\<close>

definition make_changes :: "('d, 'i) library \<Rightarrow> Repository \<Rightarrow> EditCommand \<Rightarrow> unit action" where
  \<comment> \<open>\<open>if cmd.targets\<close>: \<open>None\<close> and the empty list are false\<close>
  "make_changes L r cmd =
     (if (case targets cmd of None \<Rightarrow> False | Some ts \<Rightarrow> ts \<noteq> [])
      then make_targeted_changes
      else make_freeform_changes L r cmd)"

subsection \<open>The handlers\<close>

function str_nat :: "nat \<Rightarrow> string" where
  "str_nat k =
     (if k < 10 then [char_of (48 + k)] else str_nat (k div 10) @ [char_of (48 + k mod 10)])"
  by pat_completeness auto
termination
  by (relation "measure id") auto

definition str_int :: "int \<Rightarrow> string" where
  \<comment> \<open>\<open>str(k)\<close>: the decimal numeral\<close>
  "str_int k = (if k < 0 then ''-'' @ str_nat (nat (- k)) else str_nat (nat k))"

text \<open>
  The handlers take an \<open>Event\<close> of \<open>github_bot_api\<close>, a dataclass that carries the
  payload of the webhook in its field \<open>payload\<close>; \<open>on_any_event\<close> reads it as
  \<open>event.payload[...]\<close>. The class defines no subscript, so \<open>event[key]\<close>, the first
  expression of both handlers, raises \<open>TypeError\<close>. A payload is the record of the fields
  its handler reads; a field that may be \<open>null\<close> is an option. Where an expression
  raises, what comes after it is written with the values it was to produce: the payload
  after \<open>event[key]\<close>, the command of the issue with the one target in \<open>build_cmds\<close>, the
  repository and the command in \<open>run_cmds\<close>.
\<close>

record 'p Event =
  event_name :: string
  payload :: 'p

definition Event_getitem :: "'p Event \<Rightarrow> 'p action" where
  \<comment> \<open>\<open>event[key]\<close>\<close>
  "Event_getitem event = raise TypeError"

record IssuesPayload =
  issue_body :: "string option"
  issue_number :: int
  issue_title :: "string option"

text \<open>
  \<open>handle_issues_opened\<close> builds its commands with
  \<open>[EditCommand(**cmd_opts, t) for t in ...] or EditCommand(**cmd_opts)\<close>, where \<open>cmd_opts\<close>
  has the keys \<open>repo\<close>, \<open>cmd\<close> and \<open>branch\<close>. A positional argument after \<open>**cmd_opts\<close> is
  not Python syntax; read as a call, it passes the keyword \<open>cmd\<close>, which is no field of
  \<open>EditCommand\<close>. The list is built from the generator: a command for each target it
  yields, and its exception when it ends with one. When the list is empty the value of
  the \<open>or\<close> is one \<open>EditCommand\<close>, and the \<open>for\<close> statement cannot iterate over it. Each
  round of the loop calls \<open>_make_changes\<close>, a function of two parameters, with one
  argument. \<open>handle_issues_opened_payload\<close> is the handler from its first assertion on.
\<close>

primrec run_cmds :: "('d, 'i) library \<Rightarrow> Repository \<Rightarrow> EditCommand list \<Rightarrow> unit action" where
  "run_cmds L r [] = ret ()"
| "run_cmds L r (cmd # cmds) =
     and_then (arity 2 1)
       (\<lambda>_. and_then (make_changes L r cmd) (\<lambda>_. run_cmds L r cmds))"

primrec build_cmds ::
  "string list \<Rightarrow> EditCommand \<Rightarrow> pyerror option \<Rightarrow> EditTarget list \<Rightarrow> EditCommand list action" where
  "build_cmds kws c err [] = (case err of None \<Rightarrow> ret [] | Some e \<Rightarrow> raise e)"
| "build_cmds kws c err (t # ts) =
     and_then (EditCommand_new kws (c\<lparr>targets := Some [t]\<rparr>))
       (\<lambda>cmd. and_then (build_cmds kws c err ts) (\<lambda>cmds. ret (cmd # cmds)))"

definition handle_issues_opened_payload ::
  "('d, 'i) library \<Rightarrow> Repository \<Rightarrow> IssuesPayload \<Rightarrow> unit action" where
  "handle_issues_opened_payload L r event =
     (if \<not> truthy (issue_body event) then raise AssertionError
      else if issue_number event = 0 then raise AssertionError
      else if \<not> truthy (issue_title event) then raise AssertionError
      else
        (let body = the (issue_body event);
             number = issue_number event;
             title = the (issue_title event);
             br = ''bot/issue-'' @ str_int number;
             cmd_opts = [''repo'', ''cmd'', ''branch''];
             c = \<lparr>cmd_repo = r, command = body, cmd_branch = br, targets = None, pr = None\<rparr>;
             (ts, err) = get_targets_from_body body
         in and_then
              (and_then (build_cmds cmd_opts c err ts)
                 (\<lambda>cmds. if cmds \<noteq> [] then ret cmds
                         else and_then (EditCommand_new cmd_opts c) (\<lambda>_. raise TypeError)))
              (\<lambda>cmds. and_then (run_cmds L r cmds)
                 (\<lambda>_. send (CreatePull title (''Closes #'' @ str_int number)
                               (default_branch r) br)))))"

definition handle_issues_opened ::
  "('d, 'i) library \<Rightarrow> Repository \<Rightarrow> IssuesPayload Event \<Rightarrow> unit action" where
  "handle_issues_opened L r event =
     and_then (Event_getitem event) (handle_issues_opened_payload L r)"

text \<open>
  The payload of a comment on a pull request. \<open>handle_pr_comment\<close> reads \<open>start_line\<close> and
  \<open>line\<close> at the top level of the payload; \<open>top_level\<close> holds the integers, or \<open>null\<close>,
  found there, and a key that is missing is a \<open>KeyError\<close>.
  \<open>handle_pr_comment_payload\<close> is the handler from its first assertion on.
\<close>

record PrCommentPayload =
  comment_user_id :: int
  comment_path :: string
  comment_commit_id :: string
  comment_body :: string
  pr_user_id :: int
  pr_head_ref :: string
  pr_number :: int
  top_level :: "string \<rightharpoonup> int option"

definition payload_getitem :: "PrCommentPayload \<Rightarrow> string \<Rightarrow> int option action" where
  "payload_getitem p k = (case top_level p k of None \<Rightarrow> raise KeyError | Some v \<Rightarrow> ret v)"

definition py_int :: "int option \<Rightarrow> int action" where
  \<comment> \<open>\<open>int(v)\<close>: \<open>int(None)\<close> is a \<open>TypeError\<close>\<close>
  "py_int v = (case v of None \<Rightarrow> raise TypeError | Some k \<Rightarrow> ret k)"

definition handle_pr_comment_payload ::
  "int \<Rightarrow> ('d, 'i) library \<Rightarrow> Repository \<Rightarrow> PrCommentPayload \<Rightarrow> unit action" where
  \<comment> \<open>the first argument is the module's constant \<open>GH_BOT_UID\<close>; \<open>_make_changes\<close> is
      called with one argument; \<open>repo.get_pull\<close> only reads; the text of the reply has no
      replacement field, so \<open>format\<close> returns it as it is\<close>
  "handle_pr_comment_payload GH_BOT_UID L r event =
     (if pr_user_id event \<noteq> GH_BOT_UID then raise AssertionError
      else if comment_user_id event = GH_BOT_UID then raise AssertionError
      else
        (let br = pr_head_ref event
         in and_then (payload_getitem event ''start_line'')
              (\<lambda>first.
                 and_then
                   (if (case first of None \<Rightarrow> False | Some k \<Rightarrow> k \<noteq> 0) then ret first
                    else payload_getitem event ''line'')
                   (\<lambda>v. and_then (py_int v)
                      (\<lambda>start. and_then (payload_getitem event ''line'')
                         (\<lambda>last. and_then (py_int last)
                            (\<lambda>stop.
                               let target = \<lparr>target_path = Path (comment_path event),
                                             commit = comment_commit_id event,
                                             block = (start, stop)\<rparr>
                               in and_then (arity 2 1)
                                    (\<lambda>_. and_then
                                            (make_changes L r
                                               \<lparr>cmd_repo = r, command = comment_body event,
                                                cmd_branch = br, targets = Some [target],
                                                pr = None\<rparr>)
                                            (\<lambda>_. send (CreateReviewCommentReply (commit target)
                                                          ''Addressed in %s''))))))))))"

definition handle_pr_comment ::
  "int \<Rightarrow> ('d, 'i) library \<Rightarrow> Repository \<Rightarrow> PrCommentPayload Event \<Rightarrow> unit action" where
  "handle_pr_comment GH_BOT_UID L r event =
     and_then (Event_getitem event) (handle_pr_comment_payload GH_BOT_UID L r)"

section \<open>Example values\<close>

text \<open>
  A library, a repository, a command and worlds on which the theorems below are
  instantiated. The example library answers every query with a response of three lines,
  the first of which is no file marker.
\<close>

definition demo_library :: "(string, string) library" where
  "demo_library =
     \<lparr>expanduser = (\<lambda>p. if startswith p ''~'' then ''/home/bot'' @ drop 1 p else p),
      load_data = (\<lambda>opts. ''docs of '' @ owner opts @ ''/'' @ repo opts),
      pickle_dumps = (\<lambda>d. d),
      pickle_loads = (\<lambda>s. s),
      from_documents = (\<lambda>m d. ''index of '' @ d),
      load_from_string = (\<lambda>s. s),
      save_to_json = (\<lambda>i. i),
      query = (\<lambda>i q. ''Sure.'' @ [LF] @ ''%%% a.py'' @ [LF] @ ''x = 1''),
      get_branch = (\<lambda>r b. None),
      str_of_branch = name,
      get_git_ref = (\<lambda>r p. False),
      new_tree = (\<lambda>p t base. ''tree'' @ p),
      new_commit = (\<lambda>msg t ps. \<lparr>sha = ''c'' @ t, tree = t\<rparr>)\<rparr>"

definition demo_repo :: Repository where
  "demo_repo = \<lparr>full_name = ''o/r'', default_branch = ''main''\<rparr>"

definition demo_world :: world where
  "demo_world = \<lparr>files = Map.empty, clock = 1000, calls = []\<rparr>"

definition demo_cmd :: EditCommand where
  "demo_cmd = \<lparr>cmd_repo = demo_repo, command = ''Add a variable'', cmd_branch = ''bot/issue-7'',
               targets = None, pr = None\<rparr>"

definition demo_opts :: RepoOptions where
  "demo_opts = RepoOptions_new ''o'' ''r''"

definition demo_index_path :: string where
  "demo_index_path = ''/home/bot/.alchemy/o-r-main.sv.idx.json''"

definition demo_cached :: world where
  \<comment> \<open>a world whose index cache file is ten seconds old and empty\<close>
  "demo_cached = demo_world\<lparr>files := [demo_index_path \<mapsto> \<lparr>mtime = 990, content = []\<rparr>]\<rparr>"

definition demo_target :: EditTarget where
  "demo_target = \<lparr>target_path = Path ''Dockerfile'', commit = ''master'', block = (53, 54)\<rparr>"

definition demo_pr_payload :: PrCommentPayload where
  "demo_pr_payload =
     \<lparr>comment_user_id = 11, comment_path = ''Dockerfile'', comment_commit_id = ''abc'',
      comment_body = ''Rename it'', pr_user_id = 7, pr_head_ref = ''bot/issue-7'',
      pr_number = 8, top_level = Map.empty\<rparr>"

definition demo_issue_payload :: IssuesPayload where
  "demo_issue_payload =
     \<lparr>issue_body = Some ''Add a README'', issue_number = 7, issue_title = Some ''Docs''\<rparr>"

section \<open>Lemmas\<close>

subsection \<open>The example values\<close>

lemma demo_fields:
  "from_documents demo_library m d = ''index of '' @ d"
  "save_to_json demo_library i = i"
  "load_from_string demo_library s = s"
  by (simp_all add: demo_library_def)

lemma demo_index_path_eq:
  "get_cache_path demo_library demo_opts CacheOptions_new (Some ''sv.idx.json'') = demo_index_path"
  by (simp add: get_cache_path_def get_cache_name_def demo_opts_def RepoOptions_new_def
      CacheOptions_new_def demo_library_def path_join_def startswith_def demo_index_path_def)

lemmas demo_eval =
  get_cache_path_def get_cache_name_def demo_opts_def RepoOptions_new_def CacheOptions_new_def
  demo_library_def path_join_def startswith_def demo_index_path_def cache_is_usable_def
  demo_world_def demo_cached_def get_cache_def put_cache_def truthy_def load_documents_def
  create_simple_vector_index_def Let_def case_prod_beta

lemma demo_split: "split ''o/r'' ''/'' = [''o'', ''r'']"
  by (simp add: split_def startswith_def)

lemma demo_response:
  "fst (freeform_response demo_library demo_repo demo_cmd demo_world)
     = Inr (''Sure.'' @ [LF] @ ''%%% a.py'' @ [LF] @ ''x = 1'')"
  by (simp add: freeform_response_def demo_repo_def demo_split Let_def case_prod_beta
      demo_library_def)

lemma demo_lines:
  "splitlines (''Sure.'' @ [LF] @ ''%%% a.py'' @ [LF] @ ''x = 1'')
     = [''Sure.'', ''%%% a.py'', ''x = 1'']"
  by (simp add: splitlines_def is_linebreak_def LF_def CR_def)

lemmas match_eval =
  target_regex_match_def lit_def startswith_def any_char_def many1_def opt_end_def
  is_digit_def LF_def CR_def

subsection \<open>The cache leaves the requests to GitHub alone\<close>

lemma put_cache_calls: "calls (put_cache L d e ro co w) = calls w"
  by (simp add: put_cache_def Let_def)

lemma load_documents_calls: "calls (snd (load_documents L ro co w)) = calls w"
  by (simp add: load_documents_def Let_def put_cache_calls)

lemma create_simple_vector_index_calls:
  "calls (snd (create_simple_vector_index L ro co mo w)) = calls w"
  by (simp add: create_simple_vector_index_def Let_def case_prod_beta put_cache_calls
      load_documents_calls)

lemma freeform_response_calls:
  "freeform_response L r cmd w = (res, w1) \<Longrightarrow> calls w1 = calls w"
  by (auto simp: freeform_response_def Let_def case_prod_beta raise_def
                 create_simple_vector_index_calls
           split: list.splits option.splits)

subsection \<open>Reading the cache\<close>

lemma get_cache_hit:
  "files w (get_cache_path L ro co (Some ext)) = Some f \<Longrightarrow>
   cache_is_usable w (get_cache_path L ro co (Some ext)) co = Inr True \<Longrightarrow>
   get_cache L ext ro co w = Some (content f)"
  by (simp add: get_cache_def Let_def)

lemma get_cache_Some:
  "get_cache L ext ro co w = Some d \<Longrightarrow>
   \<exists>f. files w (get_cache_path L ro co (Some ext)) = Some f
     \<and> cache_is_usable w (get_cache_path L ro co (Some ext)) co = Inr True \<and> content f = d"
  by (auto simp: get_cache_def Let_def split: if_splits)

subsection \<open>A text of one line\<close>



subsection \<open>Matching a permalink at the start of a line\<close>











subsection \<open>The commands of an issue\<close>

lemma build_cmds_target:
  "ts \<noteq> [] \<Longrightarrow> build_cmds [''repo'', ''cmd'', ''branch''] c err ts w = (Inl TypeError, w)"
  by (cases ts)
     (simp_all add: and_then_def EditCommand_new_def EditCommand_fields_def raise_def)

lemma pr_comment_payload_guard:
  "pr_user_id p \<noteq> uid \<or> comment_user_id p = uid \<Longrightarrow>
   handle_pr_comment_payload uid L r p w = (Inl AssertionError, w)"
  by (auto simp: handle_pr_comment_payload_def raise_def)

subsection \<open>The pieces of a marker line\<close>

lemma split_from_nonempty: "split_from sep cur s \<noteq> []"
  by (induction sep cur s rule: split_from.induct) auto

lemma split_from_single: "split_from sep cur s = [k] \<Longrightarrow> k = cur @ s"
proof (induction sep cur s rule: split_from.induct)
  case (1 sep cur)
  then show ?case by simp
next
  case (2 sep cur c cs)
  show ?case
  proof (cases "sep \<noteq> [] \<and> startswith (c # cs) sep")
    case True
    with "2.prems" have "split_from sep [] (drop (length sep) (c # cs)) = []" by simp
    with split_from_nonempty show ?thesis by blast
  next
    case False
    with "2.prems" have "split_from sep (cur @ [c]) cs = [k]" by auto
    with "2.IH"(2) False show ?thesis by auto
  qed
qed

lemma split_marker_key:
  assumes "startswith l RESP_PATH_PREFIX" and "split l RESP_PATH_PREFIX = [a, key]"
  shows "key = drop (length RESP_PATH_PREFIX) l"
proof (cases l)
  case Nil
  with assms(1) show ?thesis by (simp add: startswith_def RESP_PATH_PREFIX_def)
next
  case (Cons c cs)
  have "RESP_PATH_PREFIX \<noteq> []" by (simp add: RESP_PATH_PREFIX_def)
  with assms(1) Cons
  have "split l RESP_PATH_PREFIX
          = [] # split_from RESP_PATH_PREFIX [] (drop (length RESP_PATH_PREFIX) l)"
    unfolding split_def by (simp only: split_from.simps if_True simp_thms)
  with assms(2) have "split_from RESP_PATH_PREFIX [] (drop (length RESP_PATH_PREFIX) l) = [key]"
    by simp
  from split_from_single [OF this] show ?thesis by simp
qed

lemma split_loop_Inr:
  "split_loop acc ls = Inr fs \<Longrightarrow>
   (\<forall>l \<in> set ls. startswith l RESP_PATH_PREFIX)
   \<and> fs = acc @ map (\<lambda>l. (strip (drop (length RESP_PATH_PREFIX) l), [])) ls"
proof (induction ls arbitrary: acc)
  case Nil
  then show ?case by simp
next
  case (Cons l ls)
  from Cons.prems have s: "startswith l RESP_PATH_PREFIX"
    by (auto split: if_splits)
  with Cons.prems obtain a key where k: "split l RESP_PATH_PREFIX = [a, key]"
    and r: "split_loop (acc @ [(strip key, [])]) ls = Inr fs"
    by (auto split: list.splits)
  from split_marker_key [OF s k] have "key = drop (length RESP_PATH_PREFIX) l" .
  with Cons.IH [OF r] s show ?case by simp
qed

section \<open>The claims\<close>

subsection \<open>The target extractor\<close>

text \<open>
  Claim C1 says that the extractor finds a permalink anywhere in the text, also after
  other text on the same line. \<open>_target_regex.match\<close> matches at the first character of a
  line only: a body whose only line has text before the permalink yields no target, and
  the same permalink at the start of the line yields its target.
\<close>

theorem permalink_after_text_not_found:
  "get_targets_from_body ''see https://github.com/o/r/blob/master/Dockerfile#L53'' = ([], None)
   \<and> get_targets_from_body ''https://github.com/o/r/blob/master/Dockerfile#L53''
       = ([\<lparr>target_path = Path ''Dockerfile'', commit = ''master'', block = (53, 54)\<rparr>], None)"
  by (simp add: get_targets_from_body_def splitlines_def is_linebreak_def
      target_of_line_def match_eval int_of_str_def int_max_str_digits_def decimal_value_def
      digit_value_def)




subsection \<open>The response of the language model\<close>

text \<open>
  Claim C2 says that a line without the marker is appended, with a newline, to the content
  of the pair started last. On a response of a marker line and one content line the loop
  raises \<open>AttributeError\<close> instead: it assigns to a field of a named tuple.
\<close>

theorem content_line_raises:
  "split_response (''%%% a.py'' @ [LF] @ ''x = 1'' @ [LF]) = Inl AttributeError"
  by (simp add: split_response_def splitlines_def is_linebreak_def LF_def CR_def
      RESP_PATH_PREFIX_def startswith_def split_def strip_def is_space_def)

text \<open>
  Claim C8: when the first line of the response does not begin with the marker, the loop
  raises \<open>IndexError\<close>, \<open>_make_freeform_changes\<close> ends with that exception, and no request
  has been sent to GitHub: the requests are those of the world the function started in.
\<close>

theorem split_fails_without_marker:
  assumes "freeform_response L r cmd w = (Inr resp, w1)"
    and "splitlines resp = l # ls"
    and "\<not> startswith l RESP_PATH_PREFIX"
  shows "split_response resp = Inl IndexError
         \<and> make_freeform_changes L r cmd w = (Inl IndexError, w1)
         \<and> calls w1 = calls w"
proof -
  have s: "split_response resp = Inl IndexError"
    using assms(2,3) by (simp add: split_response_def)
  have "make_freeform_changes L r cmd w = (Inl IndexError, w1)"
    using assms(1) s by (simp add: make_freeform_changes_def and_then_def of_result_def)
  with s freeform_response_calls [OF assms(1)] show ?thesis by simp
qed

theorem split_fails_without_marker_witness:
  "fst (make_freeform_changes demo_library demo_repo demo_cmd demo_world) = Inl IndexError
   \<and> calls (snd (make_freeform_changes demo_library demo_repo demo_cmd demo_world)) = []"
proof -
  let ?w1 = "snd (freeform_response demo_library demo_repo demo_cmd demo_world)"
  have 1: "freeform_response demo_library demo_repo demo_cmd demo_world
             = (Inr (''Sure.'' @ [LF] @ ''%%% a.py'' @ [LF] @ ''x = 1''), ?w1)"
    using demo_response by (simp add: prod_eq_iff)
  have 2: "\<not> startswith ''Sure.'' RESP_PATH_PREFIX"
    by (simp add: startswith_def RESP_PATH_PREFIX_def)
  from split_fails_without_marker [OF 1 demo_lines 2]
  show ?thesis by (simp add: demo_world_def)
qed

subsection \<open>The handlers and the dispatch\<close>

text \<open>
  Claim C3 says that the handler of an opened issue creates the commits, advances the
  branch and then opens the pull request. The handler never gets that far: whatever the
  event, it ends with an exception and leaves the world as it was, without a commit and
  without a pull request. The exception is the \<open>TypeError\<close> of \<open>event["issue"]\<close>. Read on
  the payload, the handler ends without a commit and a pull request as well: with
  \<open>AssertionError\<close> when the body, the number or the title is missing, with the exception
  of the generator when it ends before its first target, and with \<open>TypeError\<close>, from
  building the commands, otherwise.
\<close>

theorem issues_opened_never_opens_pull:
  "handle_issues_opened L r event w = (Inl TypeError, w)
   \<and> handle_issues_opened_payload L r p w =
       (Inl (if truthy (issue_body p) \<and> issue_number p \<noteq> 0 \<and> truthy (issue_title p)
             then (case get_targets_from_body (the (issue_body p)) of
                     ([], Some e) \<Rightarrow> e
                   | _ \<Rightarrow> TypeError)
             else AssertionError), w)"
proof
  show "handle_issues_opened L r event w = (Inl TypeError, w)"
    by (simp add: handle_issues_opened_def Event_getitem_def and_then_def raise_def)
next
  obtain ts err where g: "get_targets_from_body (the (issue_body p)) = (ts, err)"
    by (cases "get_targets_from_body (the (issue_body p))")
  show "handle_issues_opened_payload L r p w =
       (Inl (if truthy (issue_body p) \<and> issue_number p \<noteq> 0 \<and> truthy (issue_title p)
             then (case get_targets_from_body (the (issue_body p)) of
                     ([], Some e) \<Rightarrow> e
                   | _ \<Rightarrow> TypeError)
             else AssertionError), w)"
  proof (cases ts)
    case Nil
    with g show ?thesis
      by (cases err)
         (simp_all add: handle_issues_opened_payload_def raise_def ret_def Let_def and_then_def
            EditCommand_new_def EditCommand_fields_def)
  next
    case (Cons t ts')
    then have "ts \<noteq> []" by simp
    from build_cmds_target [OF this] g
    have l: "handle_issues_opened_payload L r p w =
       (Inl (if truthy (issue_body p) \<and> issue_number p \<noteq> 0 \<and> truthy (issue_title p)
             then TypeError else AssertionError), w)"
      by (simp add: handle_issues_opened_payload_def raise_def Let_def and_then_def)
    from g Cons
    have "(case get_targets_from_body (the (issue_body p)) of
             ([], Some e) \<Rightarrow> e
           | _ \<Rightarrow> TypeError) = TypeError"
      by simp
    with l show ?thesis by (simp only:)
  qed
qed

theorem issues_opened_never_opens_pull_witness:
  "handle_issues_opened demo_library demo_repo
     \<lparr>event_name = ''issues'', payload = demo_issue_payload\<rparr> demo_world
     = (Inl TypeError, demo_world)
   \<and> handle_issues_opened_payload demo_library demo_repo demo_issue_payload demo_world
     = (Inl TypeError, demo_world)"
proof -
  have "get_targets_from_body ''Add a README'' = ([], None)"
    by (simp add: get_targets_from_body_def splitlines_def is_linebreak_def
        target_of_line_def match_eval)
  with issues_opened_never_opens_pull [of demo_library demo_repo
         "\<lparr>event_name = ''issues'', payload = demo_issue_payload\<rparr>" demo_world
         demo_issue_payload]
  show ?thesis by (simp add: truthy_def demo_issue_payload_def)
qed

text \<open>
  Claim C7: \<open>_make_changes\<close> takes the targeted path exactly when the command has a
  non-empty list of targets, and that path returns at once and leaves the world unchanged;
  with no list or an empty list it takes the freeform path.
\<close>

theorem make_changes_dispatch:
  "(targets cmd = Some (t # ts) \<longrightarrow>
      make_changes L r cmd = make_targeted_changes \<and> make_changes L r cmd w = (Inr (), w))
   \<and> (targets cmd = None \<or> targets cmd = Some [] \<longrightarrow>
      make_changes L r cmd = make_freeform_changes L r cmd)"
  by (auto simp: make_changes_def make_targeted_changes_def ret_def)

theorem make_changes_dispatch_witness:
  "make_changes demo_library demo_repo (demo_cmd\<lparr>targets := Some [demo_target]\<rparr>) demo_world
     = (Inr (), demo_world)
   \<and> make_changes demo_library demo_repo demo_cmd
       = make_freeform_changes demo_library demo_repo demo_cmd
   \<and> make_changes demo_library demo_repo (demo_cmd\<lparr>targets := Some []\<rparr>)
       = make_freeform_changes demo_library demo_repo (demo_cmd\<lparr>targets := Some []\<rparr>)"
  using make_changes_dispatch [of "demo_cmd\<lparr>targets := Some [demo_target]\<rparr>" demo_target "[]"
          demo_library demo_repo demo_world]
        make_changes_dispatch [of demo_cmd _ _ demo_library demo_repo]
        make_changes_dispatch [of "demo_cmd\<lparr>targets := Some []\<rparr>" _ _ demo_library demo_repo]
  by (simp add: demo_cmd_def make_targeted_changes_def ret_def)

text \<open>
  Claim C9 says that \<open>handle_pr_comment\<close> raises \<open>AssertionError\<close> when the author of the
  pull request is not the bot or the author of the comment is the bot. Its first
  statement, \<open>comment = event["comment"]\<close>, raises \<open>TypeError\<close> before either assertion is
  reached, whatever the event; the world is as it was. Read on the payload, the handler
  does what the claim says: when either condition fails the assertion raises and the
  world is as it was.
\<close>

theorem pr_comment_raises_before_asserts:
  "handle_pr_comment uid L r event w = (Inl TypeError, w)
   \<and> (pr_user_id p \<noteq> uid \<or> comment_user_id p = uid \<longrightarrow>
        handle_pr_comment_payload uid L r p w = (Inl AssertionError, w))"
  by (simp add: handle_pr_comment_def Event_getitem_def and_then_def raise_def
      pr_comment_payload_guard)

theorem pr_comment_raises_before_asserts_witness:
  "handle_pr_comment 5 demo_library demo_repo
     \<lparr>event_name = ''pull_request_review_comment'', payload = demo_pr_payload\<rparr> demo_world
     = (Inl TypeError, demo_world)
   \<and> handle_pr_comment_payload 5 demo_library demo_repo demo_pr_payload demo_world
     = (Inl AssertionError, demo_world)
   \<and> handle_pr_comment_payload 7 demo_library demo_repo (demo_pr_payload\<lparr>comment_user_id := 7\<rparr>)
       demo_world = (Inl AssertionError, demo_world)"
  using pr_comment_raises_before_asserts [of 5 demo_library demo_repo
          "\<lparr>event_name = ''pull_request_review_comment'', payload = demo_pr_payload\<rparr>"
          demo_world demo_pr_payload]
        pr_comment_raises_before_asserts [of 7 demo_library demo_repo
          "\<lparr>event_name = ''pull_request_review_comment'', payload = demo_pr_payload\<rparr>"
          demo_world "demo_pr_payload\<lparr>comment_user_id := 7\<rparr>"]
  by (simp add: demo_pr_payload_def)

subsection \<open>The cache of the index loader\<close>

text \<open>
  Claim C4 says that a cache file is usable only when its age is below \<open>max_age\<close>.
  \<open>_cache_is_usable\<close> returns \<open>age < max_age or not force_update\<close>: with \<open>force_update\<close>
  off, as it is by default, every cache file that exists is usable, whatever its age.
\<close>

theorem cache_usable_whatever_age:
  "files w p = Some f \<Longrightarrow> \<not> force_update c \<Longrightarrow> cache_is_usable w p c = Inr True"
  by (simp add: cache_is_usable_def)

theorem cache_usable_whatever_age_witness:
  "real_of_int (max_age CacheOptions_new) \<le> clock demo_world - 0
   \<and> cache_is_usable (demo_world\<lparr>files := [''f'' \<mapsto> \<lparr>mtime = 0, content = ''i''\<rparr>]\<rparr>) ''f''
        CacheOptions_new = Inr True"
  using cache_usable_whatever_age
          [of "demo_world\<lparr>files := [''f'' \<mapsto> \<lparr>mtime = 0, content = ''i''\<rparr>]\<rparr>" "''f''"
              "\<lparr>mtime = 0, content = ''i''\<rparr>" CacheOptions_new]
  by (simp add: CacheOptions_new_def demo_world_def)

text \<open>
  Claim C5, amended: when the index cache file exists, is usable and is not empty,
  \<open>create_simple_vector_index\<close> returns the index loaded from its content and leaves the
  world as it was; in every other case it returns the index built from the loaded
  documents, and the world it leaves is the one after loading the documents with the
  serialized index written to the index cache file.
\<close>

theorem index_from_cache_or_built:
  "(files w (get_cache_path L ro co (Some ''sv.idx.json'')) = Some f
      \<and> cache_is_usable w (get_cache_path L ro co (Some ''sv.idx.json'')) co = Inr True
      \<and> content f \<noteq> [] \<longrightarrow>
    create_simple_vector_index L ro co mo w = (load_from_string L (content f), w))
   \<and> (\<not> (\<exists>g. files w (get_cache_path L ro co (Some ''sv.idx.json'')) = Some g
            \<and> cache_is_usable w (get_cache_path L ro co (Some ''sv.idx.json'')) co = Inr True
            \<and> content g \<noteq> []) \<longrightarrow>
    (let (docs, w1) = load_documents L ro co w;
         index = from_documents L mo docs
     in create_simple_vector_index L ro co mo w
          = (index, w1\<lparr>files := (files w1)(get_cache_path L ro co (Some ''sv.idx.json'')
                                    \<mapsto> \<lparr>mtime = clock w1, content = save_to_json L index\<rparr>)\<rparr>)))"
proof (intro conjI impI)
  assume "files w (get_cache_path L ro co (Some ''sv.idx.json'')) = Some f
      \<and> cache_is_usable w (get_cache_path L ro co (Some ''sv.idx.json'')) co = Inr True
      \<and> content f \<noteq> []"
  then have "get_cache L ''sv.idx.json'' ro co w = Some (content f)" "content f \<noteq> []"
    by (simp_all add: get_cache_hit)
  then show "create_simple_vector_index L ro co mo w = (load_from_string L (content f), w)"
    by (simp add: create_simple_vector_index_def truthy_def)
next
  assume n: "\<not> (\<exists>g. files w (get_cache_path L ro co (Some ''sv.idx.json'')) = Some g
            \<and> cache_is_usable w (get_cache_path L ro co (Some ''sv.idx.json'')) co = Inr True
            \<and> content g \<noteq> [])"
  have "\<not> truthy (get_cache L ''sv.idx.json'' ro co w)"
  proof
    assume "truthy (get_cache L ''sv.idx.json'' ro co w)"
    then obtain d where d: "get_cache L ''sv.idx.json'' ro co w = Some d" "d \<noteq> []"
      by (auto simp: truthy_def split: option.splits)
    from get_cache_Some [OF d(1)] d(2) n show False by auto
  qed
  then show "let (docs, w1) = load_documents L ro co w;
         index = from_documents L mo docs
     in create_simple_vector_index L ro co mo w
          = (index, w1\<lparr>files := (files w1)(get_cache_path L ro co (Some ''sv.idx.json'')
                                    \<mapsto> \<lparr>mtime = clock w1, content = save_to_json L index\<rparr>)\<rparr>)"
    by (simp add: create_simple_vector_index_def Let_def case_prod_beta put_cache_def)
qed

theorem index_from_cache_or_built_witness:
  "create_simple_vector_index demo_library demo_opts CacheOptions_new ModelOptions_new
     (demo_world\<lparr>files := [demo_index_path \<mapsto> \<lparr>mtime = 990, content = ''saved index''\<rparr>]\<rparr>)
     = (''saved index'',
        demo_world\<lparr>files := [demo_index_path \<mapsto> \<lparr>mtime = 990, content = ''saved index''\<rparr>]\<rparr>)
   \<and> fst (create_simple_vector_index demo_library demo_opts CacheOptions_new ModelOptions_new
            demo_world) = ''index of docs of o/r''
   \<and> files (snd (create_simple_vector_index demo_library demo_opts CacheOptions_new
                   ModelOptions_new demo_world)) demo_index_path
       = Some \<lparr>mtime = 1000, content = ''index of docs of o/r''\<rparr>"
proof -
  let ?w = "demo_world\<lparr>files := [demo_index_path \<mapsto> \<lparr>mtime = 990, content = ''saved index''\<rparr>]\<rparr>"
  have a: "files ?w (get_cache_path demo_library demo_opts CacheOptions_new (Some ''sv.idx.json''))
             = Some \<lparr>mtime = 990, content = ''saved index''\<rparr>
           \<and> cache_is_usable ?w (get_cache_path demo_library demo_opts CacheOptions_new
                 (Some ''sv.idx.json'')) CacheOptions_new = Inr True
           \<and> content \<lparr>mtime = 990, content = ''saved index''\<rparr> \<noteq> []"
    unfolding demo_index_path_eq
    by (simp add: cache_is_usable_def demo_world_def CacheOptions_new_def)
  have b: "\<not> (\<exists>g. files demo_world (get_cache_path demo_library demo_opts CacheOptions_new
                 (Some ''sv.idx.json'')) = Some g
            \<and> cache_is_usable demo_world (get_cache_path demo_library demo_opts CacheOptions_new
                 (Some ''sv.idx.json'')) CacheOptions_new = Inr True
            \<and> content g \<noteq> [])"
    by (simp add: demo_world_def)
  have ld: "load_documents demo_library demo_opts CacheOptions_new demo_world
     = (''docs of o/r'', demo_world\<lparr>files := [''/home/bot/.alchemy/o-r-main.docs.pkl''
           \<mapsto> \<lparr>mtime = 1000, content = ''docs of o/r''\<rparr>]\<rparr>)"
    by (simp add: demo_eval)
  note t = index_from_cache_or_built [of _ demo_library demo_opts CacheOptions_new _ ModelOptions_new]
  from t [of ?w "\<lparr>mtime = 990, content = ''saved index''\<rparr>"] a
  have 1: "create_simple_vector_index demo_library demo_opts CacheOptions_new ModelOptions_new ?w
             = (''saved index'', ?w)"
    by (simp add: demo_fields)
  from t [of demo_world] b
  have "let (docs, w1) = load_documents demo_library demo_opts CacheOptions_new demo_world;
            index = from_documents demo_library ModelOptions_new docs
        in create_simple_vector_index demo_library demo_opts CacheOptions_new ModelOptions_new
             demo_world
             = (index, w1\<lparr>files := (files w1)(get_cache_path demo_library demo_opts
                   CacheOptions_new (Some ''sv.idx.json'')
                   \<mapsto> \<lparr>mtime = clock w1, content = save_to_json demo_library index\<rparr>)\<rparr>)"
    by blast
  then have 2: "create_simple_vector_index demo_library demo_opts CacheOptions_new ModelOptions_new
                  demo_world
     = (''index of docs of o/r'',
        demo_world\<lparr>files := [''/home/bot/.alchemy/o-r-main.docs.pkl''
                                 \<mapsto> \<lparr>mtime = 1000, content = ''docs of o/r''\<rparr>,
                               demo_index_path
                                 \<mapsto> \<lparr>mtime = 1000, content = ''index of docs of o/r''\<rparr>]\<rparr>)"
    unfolding ld demo_index_path_eq by (simp add: demo_fields demo_world_def Let_def)
  show ?thesis unfolding 1 unfolding 2 by simp
qed

text \<open>
  The claim as stated fails on an index cache file that is usable and empty: the index
  is built from the documents, not loaded from the file.
\<close>

theorem empty_cache_file_counterexample:
  "files demo_cached (get_cache_path demo_library demo_opts CacheOptions_new (Some ''sv.idx.json''))
     = Some \<lparr>mtime = 990, content = []\<rparr>
   \<and> cache_is_usable demo_cached
        (get_cache_path demo_library demo_opts CacheOptions_new (Some ''sv.idx.json''))
        CacheOptions_new = Inr True
   \<and> fst (create_simple_vector_index demo_library demo_opts CacheOptions_new ModelOptions_new
            demo_cached) = ''index of docs of o/r''
   \<and> create_simple_vector_index demo_library demo_opts CacheOptions_new ModelOptions_new
        demo_cached \<noteq> (load_from_string demo_library [], demo_cached)"
proof -
  have 1: "files demo_cached
             (get_cache_path demo_library demo_opts CacheOptions_new (Some ''sv.idx.json''))
     = Some \<lparr>mtime = 990, content = []\<rparr>"
    by (simp add: demo_eval)
  have 2: "cache_is_usable demo_cached
        (get_cache_path demo_library demo_opts CacheOptions_new (Some ''sv.idx.json''))
        CacheOptions_new = Inr True"
    by (simp add: demo_eval)
  have 3: "fst (create_simple_vector_index demo_library demo_opts CacheOptions_new ModelOptions_new
            demo_cached) = ''index of docs of o/r''"
    by (simp add: demo_eval)
  have "fst (create_simple_vector_index demo_library demo_opts CacheOptions_new ModelOptions_new
            demo_cached) \<noteq> fst (load_from_string demo_library [], demo_cached)"
    unfolding 3 by (simp add: demo_library_def)
  then have 4: "create_simple_vector_index demo_library demo_opts CacheOptions_new ModelOptions_new
        demo_cached \<noteq> (load_from_string demo_library [], demo_cached)"
    by metis
  from 1 2 3 4 show ?thesis by blast
qed

text \<open>
  Claim C6, amended: the cache name is the owner, the repository name and one key, joined
  by hyphens; the key is the commit SHA when \<open>commit_sha\<close> is a non-empty string, and
  the branch name when \<open>commit_sha\<close> is \<open>None\<close> or empty. With a non-empty commit SHA
  the cache path does not depend on the branch.
\<close>

theorem cache_name_key:
  "(commit_sha ro = Some s \<and> s \<noteq> [] \<longrightarrow>
      get_cache_name ro = owner ro @ ''-'' @ repo ro @ ''-'' @ s
      \<and> get_cache_path L (ro\<lparr>branch := b\<rparr>) co ext = get_cache_path L ro co ext)
   \<and> (\<not> truthy (commit_sha ro) \<longrightarrow>
      get_cache_name ro = owner ro @ ''-'' @ repo ro @ ''-'' @ branch ro)"
  by (auto simp: get_cache_name_def get_cache_path_def truthy_def Let_def split: option.splits)

theorem cache_name_key_witness:
  "get_cache_name (demo_opts\<lparr>commit_sha := Some ''abc''\<rparr>) = ''o-r-abc''
   \<and> get_cache_path demo_library (demo_opts\<lparr>commit_sha := Some ''abc'', branch := ''dev''\<rparr>)
        CacheOptions_new (Some ''sv.idx.json'')
       = get_cache_path demo_library (demo_opts\<lparr>commit_sha := Some ''abc''\<rparr>)
           CacheOptions_new (Some ''sv.idx.json'')
   \<and> get_cache_name demo_opts = ''o-r-main''"
  using cache_name_key [of "demo_opts\<lparr>commit_sha := Some ''abc''\<rparr>" "''abc''" demo_library
          "''dev''" CacheOptions_new "Some ''sv.idx.json''"]
        cache_name_key [of demo_opts]
  by (simp add: demo_opts_def RepoOptions_new_def truthy_def)

text \<open>
  The claim as stated fails when \<open>commit_sha\<close> is set to the empty string: two options
  that differ only in the branch then have different cache files.
\<close>

theorem cache_name_branch_counterexample:
  "commit_sha (demo_opts\<lparr>commit_sha := Some []\<rparr>) \<noteq> None
   \<and> get_cache_path demo_library (demo_opts\<lparr>commit_sha := Some [], branch := ''dev''\<rparr>)
        CacheOptions_new (Some ''sv.idx.json'')
       \<noteq> get_cache_path demo_library (demo_opts\<lparr>commit_sha := Some []\<rparr>)
            CacheOptions_new (Some ''sv.idx.json'')"
  by (simp add: demo_eval)

subsection \<open>Further properties\<close>

text \<open>
  When the loop over the response returns, every line of the response began with the
  marker, and the pairs are, line by line, the rest of the line after the marker, stripped,
  with the empty content.
\<close>

theorem split_response_pairs:
  "split_response resp = Inr fs \<Longrightarrow>
   (\<forall>l \<in> set (splitlines resp). startswith l RESP_PATH_PREFIX)
   \<and> fs = map (\<lambda>l. (strip (drop (length RESP_PATH_PREFIX) l), [])) (splitlines resp)"
  using split_loop_Inr [of "[]" "splitlines resp" fs]
  by (simp add: split_response_def)

theorem split_response_pairs_witness:
  "map (\<lambda>l. (strip (drop (length RESP_PATH_PREFIX) l), [] :: string))
     (splitlines (''%%% a.py'' @ [LF] @ ''%%%  b/c.py '' @ [LF]))
     = [(''a.py'', []), (''b/c.py'', [])]"
proof -
  have "split_response (''%%% a.py'' @ [LF] @ ''%%%  b/c.py '' @ [LF])
          = Inr [(''a.py'', []), (''b/c.py'', [])]"
    by (simp add: split_response_def splitlines_def is_linebreak_def LF_def CR_def
        RESP_PATH_PREFIX_def startswith_def split_def strip_def is_space_def)
  from split_response_pairs [OF this] show ?thesis
    by (simp only: simp_thms)
qed

end
